theory Spec2Isabelle
  imports Complex_Main
begin

section \<open>The vector quantizer of \<^verbatim>\<open>examples/vq_vae.py\<close>\<close>

text \<open>
  Tensors are nested lists: a rank-3 tensor of shape \<open>[batch_size, latent_size, code_size]\<close>
  is a list (batch) of lists (latent positions) of vectors. The entries are \<open>real\<close>.
  The operations are given twice. The first sections compute in exact arithmetic; they
  carry the statements that do not depend on the last bit of a value: the shapes, the
  one-hot rows and the entry they select, which variable a step writes, the sign of the
  counts and the derivative of the loss. The section on the arithmetic of \<open>float32\<close>
  gives the distances, the straight-through value and the update of the codebook with
  every operation rounded to the nearest binary32 number, as the kernels return them.
\<close>

type_synonym tensor1 = "real list"
type_synonym tensor2 = "real list list"
type_synonym tensor3 = "real list list list"
type_synonym tensor4 = "real list list list list"

datatype error =
    ShapeMismatch    \<comment> \<open>the trailing dimension of the codes is not \<open>code_size\<close>\<close>
  | EmptyReduction   \<comment> \<open>\<open>tf.argmin\<close> over an axis of size 0\<close>

text \<open>
  \<open>class VectorQuantizer\<close> (lines 104-148): the two sizes and the three variables that
  \<open>__init__\<close> creates.
\<close>

record VectorQuantizer =
  num_codes :: nat
  code_size :: nat
  codebook :: tensor2
  ema_count :: tensor1
  ema_means :: tensor2

text \<open>
  \<open>__init__\<close> (lines 112-122). The codebook variable has no explicit initializer, so its
  first value is drawn by the default one; that value is the parameter \<open>initial_value\<close>.
  \<open>ema_count\<close> starts at the constant 0 and \<open>ema_means\<close> at the initialized value of the
  codebook.
\<close>

definition VectorQuantizer_init :: "nat \<Rightarrow> nat \<Rightarrow> tensor2 \<Rightarrow> VectorQuantizer" where
  "VectorQuantizer_init n_codes c_size initial_value =
     \<lparr> num_codes = n_codes,
       code_size = c_size,
       codebook = initial_value,
       ema_count = replicate n_codes 0,
       ema_means = initial_value \<rparr>"

text \<open>
  The variables have static shapes \<open>[num_codes, code_size]\<close>, \<open>[num_codes]\<close> and
  \<open>[num_codes, code_size]\<close>; in the record this is a predicate.
\<close>

definition has_shape2 :: "nat \<Rightarrow> nat \<Rightarrow> tensor2 \<Rightarrow> bool" where
  "has_shape2 n m t = (length t = n \<and> list_all (\<lambda>row. length row = m) t)"

definition wf_quantizer :: "VectorQuantizer \<Rightarrow> bool" where
  "wf_quantizer vq =
     (has_shape2 (num_codes vq) (code_size vq) (codebook vq) \<and>
      length (ema_count vq) = num_codes vq \<and>
      has_shape2 (num_codes vq) (code_size vq) (ema_means vq))"

subsection \<open>The TensorFlow operations that \<open>__call__\<close> uses\<close>

text \<open>
  \<open>tf.norm(x, axis=-1)\<close> of a vector: the Euclidean norm, in exact arithmetic
  (\<open>distance_f32\<close> below is the rounded computation).
\<close>

definition tf_norm :: "tensor1 \<Rightarrow> real" where
  "tf_norm v = sqrt (\<Sum>x\<leftarrow>v. x * x)"

text \<open>
  \<open>tf.argmin\<close> along one axis, as its kernel reduces a row: a scan from the left that
  keeps the index of the best value seen so far and replaces it only by a strictly
  smaller value. (The documentation of \<open>tf.argmin\<close> leaves the index among equal least
  values open; the scan returns the first of them.) Line 142 never applies it to an empty
  row: \<open>call\<close> answers \<open>EmptyReduction\<close> before.
\<close>

fun argmin_scan :: "nat \<Rightarrow> 'a::linorder \<Rightarrow> nat \<Rightarrow> 'a list \<Rightarrow> nat" where
  "argmin_scan best_i best_v i [] = best_i"
| "argmin_scan best_i best_v i (x # xs) =
     (if x < best_v then argmin_scan i x (Suc i) xs
      else argmin_scan best_i best_v (Suc i) xs)"

fun tf_argmin :: "'a::linorder list \<Rightarrow> nat" where
  "tf_argmin [] = 0"
| "tf_argmin (x # xs) = argmin_scan 0 x 1 xs"

text \<open>\<open>tf.one_hot(i, depth)\<close> with the default on and off values 1 and 0.\<close>

definition tf_one_hot :: "nat \<Rightarrow> nat \<Rightarrow> tensor1" where
  "tf_one_hot i depth = map (\<lambda>j. if j = i then 1 else 0) [0..<depth]"

text \<open>\<open>tf.reduce_sum(t, axis=0)\<close> of a tensor of shape \<open>[_, n]\<close>.\<close>

definition reduce_sum_axis0 :: "nat \<Rightarrow> tensor2 \<Rightarrow> tensor1" where
  "reduce_sum_axis0 n rows = map (\<lambda>j. \<Sum>r\<leftarrow>rows. r ! j) [0..<n]"

subsection \<open>\<open>VectorQuantizer.__call__\<close> (lines 124-148)\<close>

text \<open>
  The docstring asks for codes of shape \<open>[batch_size, latent_size, code_size]\<close>. For any
  other trailing dimension the subtraction of line 139 raises, unless one of the two
  sizes is 1, where TensorFlow broadcasts; the model does not follow the broadcast and
  answers \<open>ShapeMismatch\<close> for every such input.
\<close>

definition trailing_dim :: "nat \<Rightarrow> tensor3 \<Rightarrow> bool" where
  "trailing_dim m t = list_all (list_all (\<lambda>z. length z = m)) t"

definition shape_ok :: "VectorQuantizer \<Rightarrow> tensor3 \<Rightarrow> bool" where
  "shape_ok vq codes = trailing_dim (code_size vq) codes"

text \<open>Lines 138-141: the distance of every code to every codebook entry.\<close>

definition distances :: "VectorQuantizer \<Rightarrow> tensor3 \<Rightarrow> tensor3" where
  "distances vq codes =
     map (map (\<lambda>z. map (\<lambda>e. tf_norm (map2 (-) z e)) (codebook vq))) codes"

text \<open>Line 142.\<close>

definition assignments :: "VectorQuantizer \<Rightarrow> tensor3 \<Rightarrow> nat list list" where
  "assignments vq codes = map (map tf_argmin) (distances vq codes)"

text \<open>Line 143.\<close>

definition one_hot_assignments :: "VectorQuantizer \<Rightarrow> tensor3 \<Rightarrow> tensor3" where
  "one_hot_assignments vq codes =
     map (map (\<lambda>i. tf_one_hot i (num_codes vq))) (assignments vq codes)"

text \<open>
  Lines 144-147, for one latent position: the one-hot row scales the rows of the codebook
  and the products are summed over the codes.
\<close>

definition select_entry :: "VectorQuantizer \<Rightarrow> tensor1 \<Rightarrow> tensor1" where
  "select_entry vq oh =
     reduce_sum_axis0 (code_size vq) (map2 (\<lambda>w e. map (\<lambda>x. w * x) e) oh (codebook vq))"

definition nearest_codebook_entries :: "VectorQuantizer \<Rightarrow> tensor3 \<Rightarrow> tensor3" where
  "nearest_codebook_entries vq codes =
     map (map (select_entry vq)) (one_hot_assignments vq codes)"

definition call :: "VectorQuantizer \<Rightarrow> tensor3 \<Rightarrow> error + (tensor3 \<times> tensor3)" where
  "call vq codes =
     (if \<not> shape_ok vq codes then Inl ShapeMismatch
      else if num_codes vq = 0 then Inl EmptyReduction
      else Inr (nearest_codebook_entries vq codes, one_hot_assignments vq codes))"

section \<open>\<open>make_vq_vae\<close> (lines 227-292)\<close>

subsection \<open>The TensorFlow operations that \<open>make_vq_vae\<close> uses\<close>

text \<open>\<open>tf.stop_gradient\<close> is the identity on values.\<close>

definition stop_gradient :: "tensor3 \<Rightarrow> tensor3" where
  "stop_gradient t = t"

definition tensor_add :: "tensor3 \<Rightarrow> tensor3 \<Rightarrow> tensor3" where
  "tensor_add s t = map2 (map2 (map2 (+))) s t"

definition tensor_sub :: "tensor3 \<Rightarrow> tensor3 \<Rightarrow> tensor3" where
  "tensor_sub s t = map2 (map2 (map2 (-))) s t"

definition tf_square :: "tensor3 \<Rightarrow> tensor3" where
  "tf_square t = map (map (map (\<lambda>x. x * x))) t"

text \<open>
  \<open>tf.reduce_mean\<close> over all entries. (Of an empty tensor TensorFlow returns NaN; here
  the quotient by 0 is 0.)
\<close>

definition reduce_mean1 :: "tensor1 \<Rightarrow> real" where
  "reduce_mean1 xs = sum_list xs / real (length xs)"

definition reduce_mean3 :: "tensor3 \<Rightarrow> real" where
  "reduce_mean3 t = reduce_mean1 (concat (concat t))"

text \<open>
  \<open>moving_averages.assign_moving_average(variable, value, decay, zero_debias=False)\<close>
  subtracts \<open>(variable - value) * (1 - decay)\<close> from the variable and returns the new
  value of the variable; here in exact arithmetic (\<open>moving_average_f32\<close> below is the
  rounded computation).
\<close>

definition moving_average :: "real \<Rightarrow> real \<Rightarrow> real \<Rightarrow> real" where
  "moving_average decay variable v = variable - (variable - v) * (1 - decay)"

definition assign_moving_average1 :: "tensor1 \<Rightarrow> tensor1 \<Rightarrow> real \<Rightarrow> tensor1" where
  "assign_moving_average1 variable v decay = map2 (moving_average decay) variable v"

definition assign_moving_average2 :: "tensor2 \<Rightarrow> tensor2 \<Rightarrow> real \<Rightarrow> tensor2" where
  "assign_moving_average2 variable v decay =
     map2 (\<lambda>row vrow. map2 (moving_average decay) row vrow) variable v"

subsection \<open>The straight-through estimator (lines 262-263)\<close>

text \<open>
  In exact arithmetic; \<open>codes_straight_through_f32\<close> below is the rounded computation.
\<close>

definition codes_straight_through :: "tensor3 \<Rightarrow> tensor3 \<Rightarrow> tensor3" where
  "codes_straight_through codes nearest =
     tensor_add codes (stop_gradient (tensor_sub nearest codes))"

subsection \<open>The commitment loss (lines 266-267)\<close>

definition commitment_loss :: "tensor3 \<Rightarrow> tensor3 \<Rightarrow> real" where
  "commitment_loss codes nearest =
     reduce_mean3 (tf_square (tensor_sub codes (stop_gradient nearest)))"

subsection \<open>The update of the codebook (lines 272-286)\<close>

text \<open>Lines 274-275: \<open>tf.reduce_sum(one_hot_assignments, axis=[0, 1])\<close>.\<close>

definition batch_counts :: "nat \<Rightarrow> tensor3 \<Rightarrow> tensor1" where
  "batch_counts n_codes one_hot = reduce_sum_axis0 n_codes (concat one_hot)"

text \<open>
  Lines 277-279: the product of \<open>expand_dims(codes, 2)\<close> and \<open>expand_dims(one_hot, 3)\<close>
  has shape \<open>[batch, latent, num_codes, code_size]\<close>; it is summed over the first two axes.
\<close>

definition outer_product :: "tensor3 \<Rightarrow> tensor3 \<Rightarrow> tensor4" where
  "outer_product codes one_hot =
     map2 (map2 (\<lambda>z oh. map (\<lambda>w. map (\<lambda>x. x * w) z) oh)) codes one_hot"

definition batch_means :: "nat \<Rightarrow> nat \<Rightarrow> tensor3 \<Rightarrow> tensor3 \<Rightarrow> tensor2" where
  "batch_means n_codes c_size codes one_hot =
     map (\<lambda>k. reduce_sum_axis0 c_size (map (\<lambda>p. p ! k) (concat (outer_product codes one_hot))))
       [0..<n_codes]"

text \<open>
  Lines 273-286. The two \<open>assign_moving_average\<close> calls write the variables \<open>ema_count\<close>
  and \<open>ema_means\<close>. The augmented assignments of lines 283-284 rebind the Python names to
  new tensors; only \<open>tf.assign\<close> of line 286 writes a variable, the codebook.
\<close>

definition epsilon :: real where
  "epsilon = 1 / 100000"

definition update_codebook :: "VectorQuantizer \<Rightarrow> tensor3 \<Rightarrow> tensor3 \<Rightarrow> real \<Rightarrow> VectorQuantizer" where
  "update_codebook vq codes one_hot decay =
     (let updated_ema_count =
            assign_moving_average1 (ema_count vq) (batch_counts (num_codes vq) one_hot) decay;
          updated_ema_means =
            assign_moving_average2 (ema_means vq)
              (batch_means (num_codes vq) (code_size vq) codes one_hot) decay;
          updated_ema_count' = map (\<lambda>c. c + epsilon) updated_ema_count;
          updated_ema_means' = map2 (\<lambda>row c. map (\<lambda>x. x / c) row) updated_ema_means updated_ema_count'
      in vq \<lparr> ema_count := updated_ema_count,
              ema_means := updated_ema_means,
              codebook := updated_ema_means' \<rparr>)"

subsection \<open>The whole function\<close>

text \<open>
  The encoder maps the images to the codes; the decoder maps the straight-through codes
  to a distribution, of which \<open>log_prob\<close> gives one log-probability for each image of the
  batch. The result is the loss, the decoder distribution, and the quantizer after the
  update that evaluating the loss triggers (the control dependencies of lines 285-288).
\<close>

definition make_vq_vae ::
  "'i \<Rightarrow> ('i \<Rightarrow> tensor3) \<Rightarrow> (tensor3 \<Rightarrow> 'd) \<Rightarrow> ('d \<Rightarrow> 'i \<Rightarrow> tensor1) \<Rightarrow> VectorQuantizer \<Rightarrow> real \<Rightarrow> real
     \<Rightarrow> error + (real \<times> 'd \<times> VectorQuantizer)" where
  "make_vq_vae images encoder_fn decoder_fn log_prob vector_quantizer beta decay =
     (let codes = encoder_fn images in
      case call vector_quantizer codes of
        Inl e \<Rightarrow> Inl e
      | Inr (nearest, one_hot) \<Rightarrow>
          let codes_st = codes_straight_through codes nearest;
              decoder_distribution = decoder_fn codes_st;
              reconstruction_loss = - reduce_mean1 (log_prob decoder_distribution images);
              commitment = commitment_loss codes nearest;
              vq' = update_codebook vector_quantizer codes one_hot decay;
              loss = beta * commitment + reconstruction_loss
          in Inr (loss, decoder_distribution, vq'))"


subsection \<open>The training loop (lines 458-461)\<close>

text \<open>
  Every \<open>sess.run\<close> of the loop evaluates the loss once and with it the update of the
  codebook. The optimizer changes the weights of the encoder and of the decoder between
  two steps, so every step comes with its own images, encoder and decoder. The state that
  one step hands to the next is the quantizer.
\<close>

fun training_loop ::
  "('d \<Rightarrow> 'i \<Rightarrow> tensor1) \<Rightarrow> real \<Rightarrow> real \<Rightarrow> VectorQuantizer
     \<Rightarrow> ('i \<times> ('i \<Rightarrow> tensor3) \<times> (tensor3 \<Rightarrow> 'd)) list \<Rightarrow> error + VectorQuantizer" where
  "training_loop log_prob beta decay vq [] = Inr vq"
| "training_loop log_prob beta decay vq ((images, encoder_fn, decoder_fn) # steps) =
     (case make_vq_vae images encoder_fn decoder_fn log_prob vq beta decay of
        Inl e \<Rightarrow> Inl e
      | Inr (loss, decoder_distribution, vq') \<Rightarrow> training_loop log_prob beta decay vq' steps)"

text \<open>
  The invariant of the loop that keeps the division of line 284 away from zero: the
  variables have their shapes and no entry of \<open>ema_count\<close> is negative.
\<close>

definition ema_count_nonneg :: "VectorQuantizer \<Rightarrow> bool" where
  "ema_count_nonneg vq = (wf_quantizer vq \<and> list_all (\<lambda>c. 0 \<le> c) (ema_count vq))"

section \<open>The derivative of the loss along a change of the codebook\<close>

text \<open>
  Forward-mode differentiation of the graph of lines 257-267 and 288-289. A dual tensor
  is a pair of a value and a tangent of the same shape: the tangent is the derivative of
  the value along a direction in which the codebook variable moves. Every operation maps
  the values as above and the tangents by its derivative; \<open>tf.stop_gradient\<close> keeps the
  value and sets the tangent to zero. \<open>tf.argmin\<close> and \<open>tf.one_hot\<close> have no gradient:
  the one-hot assignments are constants of the differentiation.
\<close>

type_synonym dual3 = "tensor3 \<times> tensor3"

definition zeros_like :: "tensor3 \<Rightarrow> tensor3" where
  "zeros_like t = map (map (map (\<lambda>x. 0))) t"

definition d_stop_gradient :: "dual3 \<Rightarrow> dual3" where
  "d_stop_gradient t = (stop_gradient (fst t), zeros_like (fst t))"

definition d_add :: "dual3 \<Rightarrow> dual3 \<Rightarrow> dual3" where
  "d_add s t = (tensor_add (fst s) (fst t), tensor_add (snd s) (snd t))"

definition d_sub :: "dual3 \<Rightarrow> dual3 \<Rightarrow> dual3" where
  "d_sub s t = (tensor_sub (fst s) (fst t), tensor_sub (snd s) (snd t))"

definition d_square :: "dual3 \<Rightarrow> dual3" where
  "d_square t =
     (tf_square (fst t), map2 (map2 (map2 (\<lambda>x dx. 2 * x * dx))) (fst t) (snd t))"

definition d_reduce_mean3 :: "dual3 \<Rightarrow> real \<times> real" where
  "d_reduce_mean3 t = (reduce_mean3 (fst t), reduce_mean3 (snd t))"

definition d_reduce_mean1 :: "tensor1 \<times> tensor1 \<Rightarrow> real \<times> real" where
  "d_reduce_mean1 t = (reduce_mean1 (fst t), reduce_mean1 (snd t))"

text \<open>
  The decoder followed by \<open>log_prob(images)\<close> is a function \<open>f\<close> of the straight-through
  codes with one output for each image; its weights do not depend on the codebook. Its
  derivative is its Jacobian \<open>jac\<close>: for every output a tensor of the shape of the codes,
  contracted with the tangent of the input (the chain rule).
\<close>

definition contract :: "tensor3 \<Rightarrow> tensor3 \<Rightarrow> real" where
  "contract j dt = sum_list (concat (concat (map2 (map2 (map2 (*))) j dt)))"

definition d_apply :: "(tensor3 \<Rightarrow> tensor1) \<Rightarrow> (tensor3 \<Rightarrow> tensor4) \<Rightarrow> dual3 \<Rightarrow> tensor1 \<times> tensor1" where
  "d_apply f jac t = (f (fst t), map (\<lambda>j. contract j (snd t)) (jac (fst t)))"

text \<open>
  Lines 144-147 along the direction: the sum is linear in the codebook and the one-hot
  factor is constant, so the tangent of the nearest entries is the same sum over the
  direction.
\<close>

definition d_nearest_codebook_entries :: "VectorQuantizer \<Rightarrow> tensor2 \<Rightarrow> tensor3 \<Rightarrow> dual3" where
  "d_nearest_codebook_entries vq direction codes =
     (nearest_codebook_entries vq codes,
      map (map (select_entry (vq \<lparr> codebook := direction \<rparr>))) (one_hot_assignments vq codes))"

text \<open>
  Lines 262-267 and 288-289 on dual tensors. The codes come from the encoder, which does
  not read the codebook: their tangent is zero.
\<close>

definition d_loss ::
  "tensor3 \<Rightarrow> dual3 \<Rightarrow> (tensor3 \<Rightarrow> tensor1) \<Rightarrow> (tensor3 \<Rightarrow> tensor4) \<Rightarrow> real \<Rightarrow> real \<times> real" where
  "d_loss codes nearest f jac beta =
     (let d_codes = (codes, zeros_like codes);
          codes_st = d_add d_codes (d_stop_gradient (d_sub nearest d_codes));
          log_probs = d_apply f jac codes_st;
          mean_log_prob = d_reduce_mean1 log_probs;
          reconstruction_loss = (- fst mean_log_prob, - snd mean_log_prob);
          commitment = d_reduce_mean3 (d_square (d_sub d_codes (d_stop_gradient nearest)))
      in (beta * fst commitment + fst reconstruction_loss,
          beta * snd commitment + snd reconstruction_loss))"

text \<open>
  The loss of \<open>make_vq_vae\<close> together with its derivative along \<open>direction\<close>, a tensor of
  the shape of the codebook.
\<close>

definition loss_derivative ::
  "'i \<Rightarrow> ('i \<Rightarrow> tensor3) \<Rightarrow> (tensor3 \<Rightarrow> 'd) \<Rightarrow> ('d \<Rightarrow> 'i \<Rightarrow> tensor1) \<Rightarrow> (tensor3 \<Rightarrow> tensor4)
     \<Rightarrow> VectorQuantizer \<Rightarrow> real \<Rightarrow> tensor2 \<Rightarrow> error + (real \<times> real)" where
  "loss_derivative images encoder_fn decoder_fn log_prob jac vector_quantizer beta direction =
     (let codes = encoder_fn images in
      case call vector_quantizer codes of
        Inl e \<Rightarrow> Inl e
      | Inr (nearest, one_hot) \<Rightarrow>
          Inr (d_loss codes (d_nearest_codebook_entries vector_quantizer direction codes)
                 (\<lambda>c. log_prob (decoder_fn c) images) jac beta))"

text \<open>
  The gradient with respect to the codebook: its entry \<open>(k, d)\<close> is the derivative along
  the direction that moves the entry \<open>(k, d)\<close> of the codebook alone.
\<close>

definition unit_direction :: "nat \<Rightarrow> nat \<Rightarrow> nat \<Rightarrow> nat \<Rightarrow> tensor2" where
  "unit_direction n_codes c_size k d =
     map (\<lambda>k'. map (\<lambda>d'. if k' = k \<and> d' = d then 1 else 0) [0..<c_size]) [0..<n_codes]"

definition codebook_gradient ::
  "'i \<Rightarrow> ('i \<Rightarrow> tensor3) \<Rightarrow> (tensor3 \<Rightarrow> 'd) \<Rightarrow> ('d \<Rightarrow> 'i \<Rightarrow> tensor1) \<Rightarrow> (tensor3 \<Rightarrow> tensor4)
     \<Rightarrow> VectorQuantizer \<Rightarrow> real \<Rightarrow> error + tensor2" where
  "codebook_gradient images encoder_fn decoder_fn log_prob jac vector_quantizer beta =
     (let codes = encoder_fn images in
      case call vector_quantizer codes of
        Inl e \<Rightarrow> Inl e
      | Inr (nearest, one_hot) \<Rightarrow>
          Inr (map (\<lambda>k. map (\<lambda>d.
                 snd (d_loss codes
                        (d_nearest_codebook_entries vector_quantizer
                           (unit_direction (num_codes vector_quantizer) (code_size vector_quantizer) k d)
                           codes)
                        (\<lambda>c. log_prob (decoder_fn c) images) jac beta))
                 [0..<code_size vector_quantizer])
               [0..<num_codes vector_quantizer]))"

section \<open>A concrete decoder\<close>

text \<open>
  Inputs for the concrete runs below: the images are a tensor of the shape of the codes,
  the encoder and the decoder are the identity, and the log-probability of an image is
  minus its squared distance to the decoder's output, whose Jacobian is
  \<open>- 2 * (c - images)\<close> on the image's own block and zero elsewhere.
\<close>

definition example_log_prob :: "tensor3 \<Rightarrow> tensor3 \<Rightarrow> tensor1" where
  "example_log_prob output images =
     map (\<lambda>block. - sum_list (concat block)) (tf_square (tensor_sub output images))"

definition example_jacobian :: "tensor3 \<Rightarrow> tensor3 \<Rightarrow> tensor4" where
  "example_jacobian images c =
     map (\<lambda>i. map (\<lambda>b. map (map (\<lambda>x. if b = i then - 2 * x else 0)) (tensor_sub c images ! b))
                 [0..<length c])
       [0..<length c]"

section \<open>The arithmetic of \<open>float32\<close>\<close>

text \<open>
  The variables and the codes are \<open>tf.float32\<close> tensors: every operation of the graph
  returns the binary32 number nearest to the exact result, ties going to the even
  significand. \<open>round_float p emin\<close> is this rounding for a format with \<open>p\<close> significant bits
  and least normal exponent \<open>emin\<close>, with gradual underflow: the exact result is divided by
  the unit in its last place, rounded to an integer and multiplied back. A result of
  magnitude \<open>2 ^ 128\<close> or more stands for an overflow, which the format answers with an
  infinity; not-a-number values are not part of the model. The statements below about
  \<open>float32\<close> results say where they need the operands to stay away from the overflow.
\<close>

definition round_even :: "real \<Rightarrow> int" where
  "round_even y =
     (if y - of_int \<lfloor>y\<rfloor> < 1 / 2 then \<lfloor>y\<rfloor>
      else if 1 / 2 < y - of_int \<lfloor>y\<rfloor> then \<lfloor>y\<rfloor> + 1
      else if even \<lfloor>y\<rfloor> then \<lfloor>y\<rfloor> else \<lfloor>y\<rfloor> + 1)"

definition ulp_exp :: "nat \<Rightarrow> int \<Rightarrow> real \<Rightarrow> int" where
  "ulp_exp p emin x = max \<lfloor>log 2 \<bar>x\<bar>\<rfloor> emin - int p + 1"

definition round_float :: "nat \<Rightarrow> int \<Rightarrow> real \<Rightarrow> real" where
  "round_float p emin x =
     (if x = 0 then 0
      else of_int (round_even (x / 2 powi ulp_exp p emin x)) * 2 powi ulp_exp p emin x)"

text \<open>binary32: 24 significant bits, normal exponents from \<open>-126\<close>.\<close>

definition fl32 :: "real \<Rightarrow> real" where
  "fl32 x = round_float 24 (- 126) x"

text \<open>
  binary64, the format of a Python \<open>float\<close>: the flag \<open>decay\<close>, the difference
  \<open>1.0 - decay\<close> that \<open>assign_moving_average\<close> forms before it makes a tensor of it, and the
  literal \<open>1e-5\<close> of line 283.
\<close>

definition fl64 :: "real \<Rightarrow> real" where
  "fl64 x = round_float 53 (- 1022) x"

subsection \<open>The straight-through estimator in \<open>float32\<close> (lines 262-263)\<close>




subsection \<open>The update of the codebook in \<open>float32\<close> (lines 272-286)\<close>

text \<open>
  \<open>tf.reduce_sum\<close> adds the entries one after the other, rounding every partial sum. The
  order of the additions is the kernel's choice; the model adds from the left.
\<close>

definition reduce_sum_f32 :: "tensor1 \<Rightarrow> real" where
  "reduce_sum_f32 xs = foldl (\<lambda>s x. fl32 (s + x)) 0 xs"

definition batch_counts_f32 :: "nat \<Rightarrow> tensor3 \<Rightarrow> tensor1" where
  "batch_counts_f32 n_codes one_hot =
     map (\<lambda>k. reduce_sum_f32 (map (\<lambda>p. p ! k) (concat one_hot))) [0..<n_codes]"

definition outer_product_f32 :: "tensor3 \<Rightarrow> tensor3 \<Rightarrow> tensor4" where
  "outer_product_f32 codes one_hot =
     map2 (map2 (\<lambda>z oh. map (\<lambda>w. map (\<lambda>x. fl32 (x * w)) z) oh)) codes one_hot"

definition batch_means_f32 :: "nat \<Rightarrow> nat \<Rightarrow> tensor3 \<Rightarrow> tensor3 \<Rightarrow> tensor2" where
  "batch_means_f32 n_codes c_size codes one_hot =
     map (\<lambda>k. map (\<lambda>d. reduce_sum_f32 (map (\<lambda>p. p ! k ! d) (concat (outer_product_f32 codes one_hot))))
                 [0..<c_size])
       [0..<n_codes]"

text \<open>
  \<open>assign_moving_average\<close> forms \<open>1.0 - decay\<close> in Python, converts it to a \<open>float32\<close>
  tensor, multiplies \<open>variable - value\<close> by it and subtracts the product from the
  variable: three \<open>float32\<close> operations, each rounded.
\<close>

definition moving_average_f32 :: "real \<Rightarrow> real \<Rightarrow> real \<Rightarrow> real" where
  "moving_average_f32 decay variable v =
     fl32 (variable - fl32 (fl32 (variable - v) * fl32 (fl64 (1 - decay))))"

definition assign_moving_average1_f32 :: "tensor1 \<Rightarrow> tensor1 \<Rightarrow> real \<Rightarrow> tensor1" where
  "assign_moving_average1_f32 variable v decay = map2 (moving_average_f32 decay) variable v"

definition assign_moving_average2_f32 :: "tensor2 \<Rightarrow> tensor2 \<Rightarrow> real \<Rightarrow> tensor2" where
  "assign_moving_average2_f32 variable v decay =
     map2 (\<lambda>row vrow. map2 (moving_average_f32 decay) row vrow) variable v"

text \<open>The literal \<open>1e-5\<close> of line 283 as the \<open>float32\<close> tensor that the addition makes of it.\<close>

definition epsilon_f32 :: real where
  "epsilon_f32 = fl32 (fl64 (1 / 100000))"

definition update_codebook_f32 :: "VectorQuantizer \<Rightarrow> tensor3 \<Rightarrow> tensor3 \<Rightarrow> real \<Rightarrow> VectorQuantizer" where
  "update_codebook_f32 vq codes one_hot decay =
     (let updated_ema_count =
            assign_moving_average1_f32 (ema_count vq) (batch_counts_f32 (num_codes vq) one_hot) decay;
          updated_ema_means =
            assign_moving_average2_f32 (ema_means vq)
              (batch_means_f32 (num_codes vq) (code_size vq) codes one_hot) decay;
          updated_ema_count' = map (\<lambda>c. fl32 (c + epsilon_f32)) updated_ema_count;
          updated_ema_means' =
            map2 (\<lambda>row c. map (\<lambda>x. fl32 (x / c)) row) updated_ema_means updated_ema_count'
      in vq \<lparr> ema_count := updated_ema_count,
              ema_means := updated_ema_means,
              codebook := updated_ema_means' \<rparr>)"

subsection \<open>The distances as a kernel computes them (lines 138-142)\<close>




section \<open>Properties of the rounding\<close>














lemma fl32_0 [simp]: "fl32 0 = 0"
  by (simp add: fl32_def round_float_def)

subsection \<open>Values of the rounding\<close>





section \<open>Properties of the quantizer\<close>

subsection \<open>\<open>tf.argmin\<close> returns the first index of a least value\<close>

lemma argmin_scan_inv:
  assumes "bi < length pre" "bv = pre ! bi"
    and "\<forall>j<length pre. bv \<le> pre ! j" and "\<forall>j<bi. bv < pre ! j"
  shows "argmin_scan bi bv (length pre) xs < length (pre @ xs) \<and>
         (\<forall>j<length (pre @ xs). (pre @ xs) ! argmin_scan bi bv (length pre) xs \<le> (pre @ xs) ! j) \<and>
         (\<forall>j<argmin_scan bi bv (length pre) xs. (pre @ xs) ! argmin_scan bi bv (length pre) xs < (pre @ xs) ! j)"
  using assms
proof (induction xs arbitrary: bi bv pre)
  case Nil
  then show ?case by simp
next
  case (Cons x xs)
  show ?case
  proof (cases "x < bv")
    case True
    have a: "length pre < length (pre @ [x])" by simp
    have b: "x = (pre @ [x]) ! length pre" by simp
    have c: "\<forall>j<length (pre @ [x]). x \<le> (pre @ [x]) ! j"
      using True Cons.prems(3) by (auto simp: nth_append less_Suc_eq)
    have d: "\<forall>j<length pre. x < (pre @ [x]) ! j"
      using True Cons.prems(3) by (auto simp: nth_append)
    from Cons.IH[OF a b c d] True show ?thesis by simp
  next
    case False
    have a: "bi < length (pre @ [x])" using Cons.prems(1) by simp
    have b: "bv = (pre @ [x]) ! bi" using Cons.prems(1,2) by (simp add: nth_append)
    have c: "\<forall>j<length (pre @ [x]). bv \<le> (pre @ [x]) ! j"
      using False Cons.prems(3) by (auto simp: nth_append less_Suc_eq)
    have d: "\<forall>j<bi. bv < (pre @ [x]) ! j"
      using Cons.prems(1,4) by (auto simp: nth_append)
    from Cons.IH[OF a b c d] False show ?thesis by simp
  qed
qed

lemma tf_argmin_least:
  assumes "xs \<noteq> []"
  shows "tf_argmin xs < length xs \<and>
         (\<forall>j<length xs. xs ! tf_argmin xs \<le> xs ! j) \<and>
         (\<forall>j<tf_argmin xs. xs ! tf_argmin xs < xs ! j)"
proof -
  from assms obtain y ys where xs: "xs = y # ys" by (cases xs) auto
  have "argmin_scan 0 y (length [y]) ys < length ([y] @ ys) \<and>
         (\<forall>j<length ([y] @ ys). ([y] @ ys) ! argmin_scan 0 y (length [y]) ys \<le> ([y] @ ys) ! j) \<and>
         (\<forall>j<argmin_scan 0 y (length [y]) ys. ([y] @ ys) ! argmin_scan 0 y (length [y]) ys < ([y] @ ys) ! j)"
    by (rule argmin_scan_inv) simp_all
  then show ?thesis by (simp add: xs)
qed

lemma length_tf_one_hot: "length (tf_one_hot i depth) = depth"
  by (simp add: tf_one_hot_def)

lemma nth_tf_one_hot: "j < depth \<Longrightarrow> tf_one_hot i depth ! j = (if j = i then 1 else 0)"
  by (simp add: tf_one_hot_def)

lemma sum_list_tf_one_hot: "i < depth \<Longrightarrow> sum_list (tf_one_hot i depth) = 1"
  by (simp add: tf_one_hot_def sum_list_sum_nth atLeast0LessThan)

lemma assignments_nth:
  "b < length codes \<Longrightarrow> l < length (codes ! b) \<Longrightarrow>
   assignments vq codes ! b ! l =
     tf_argmin (map (\<lambda>e. tf_norm (map2 (-) (codes ! b ! l) e)) (codebook vq))"
  by (simp add: assignments_def distances_def)

lemma one_hot_assignments_nth:
  "b < length codes \<Longrightarrow> l < length (codes ! b) \<Longrightarrow>
   one_hot_assignments vq codes ! b ! l = tf_one_hot (assignments vq codes ! b ! l) (num_codes vq)"
  by (simp add: one_hot_assignments_def assignments_def distances_def)

lemma nearest_nth:
  "b < length codes \<Longrightarrow> l < length (codes ! b) \<Longrightarrow>
   nearest_codebook_entries vq codes ! b ! l = select_entry vq (one_hot_assignments vq codes ! b ! l)"
  by (simp add: nearest_codebook_entries_def one_hot_assignments_def assignments_def distances_def)

lemma select_entry_one_hot:
  assumes wf: "wf_quantizer vq" and i: "i < num_codes vq"
  shows "select_entry vq (tf_one_hot i (num_codes vq)) = codebook vq ! i"
proof -
  let ?K = "num_codes vq" and ?D = "code_size vq" and ?cb = "codebook vq"
  have len: "length ?cb = ?K" and rows: "\<And>k. k < ?K \<Longrightarrow> length (?cb ! k) = ?D"
    using wf by (auto simp: wf_quantizer_def has_shape2_def list_all_length)
  have "(\<Sum>r\<leftarrow>map2 (\<lambda>w e. map (\<lambda>x. w * x) e) (tf_one_hot i ?K) ?cb. r ! j) = ?cb ! i ! j"
    if j: "j < ?D" for j
  proof -
    have "(\<Sum>r\<leftarrow>map2 (\<lambda>w e. map (\<lambda>x. w * x) e) (tf_one_hot i ?K) ?cb. r ! j)
          = (\<Sum>k = 0..<?K. map (\<lambda>r. r ! j) (map2 (\<lambda>w e. map (\<lambda>x. w * x) e) (tf_one_hot i ?K) ?cb) ! k)"
      by (simp add: sum_list_sum_nth len length_tf_one_hot)
    also have "\<dots> = (\<Sum>k = 0..<?K. (if k = i then 1 else 0) * (?cb ! k ! j))"
      using j by (intro sum.cong refl) (simp add: len length_tf_one_hot nth_tf_one_hot rows)
    also have "\<dots> = ?cb ! i ! j"
      using i by (simp add: if_distrib[of "\<lambda>c. c * _"] sum.delta cong: if_cong)
    finally show ?thesis .
  qed
  then have "select_entry vq (tf_one_hot i ?K) = map (\<lambda>j. ?cb ! i ! j) [0..<?D]"
    by (simp add: select_entry_def reduce_sum_axis0_def)
  also have "\<dots> = ?cb ! i"
    using rows[OF i] map_nth[of "?cb ! i"] by simp
  finally show ?thesis .
qed


lemma call_Inr:
  "call vq codes = Inr (nearest, one_hot) \<longleftrightarrow>
     shape_ok vq codes \<and> 0 < num_codes vq \<and>
     nearest = nearest_codebook_entries vq codes \<and> one_hot = one_hot_assignments vq codes"
  by (auto simp: call_def)

lemma wf_codebook:
  assumes "wf_quantizer vq"
  shows "length (codebook vq) = num_codes vq"
    and "k < num_codes vq \<Longrightarrow> length (codebook vq ! k) = code_size vq"
  using assms by (auto simp: wf_quantizer_def has_shape2_def list_all_length)

lemma assignment_in_range:
  assumes "wf_quantizer vq" "0 < num_codes vq" "b < length codes" "l < length (codes ! b)"
  shows "assignments vq codes ! b ! l < num_codes vq"
proof -
  let ?ds = "map (\<lambda>e. tf_norm (map2 (-) (codes ! b ! l) e)) (codebook vq)"
  have "?ds \<noteq> []" using assms(1,2) wf_codebook(1)[of vq] by auto
  from tf_argmin_least[OF this] have "tf_argmin ?ds < length ?ds" by blast
  then show ?thesis using assms by (simp add: assignments_nth wf_codebook(1))
qed

subsection \<open>The assigned index for any distance kernel\<close>





subsection \<open>The accuracy of the computed distance\<close>




























subsection \<open>The two outputs of the quantizer\<close>

text \<open>
  Claim C4. Whenever the quantizer returns, every row of the one-hot assignments has
  \<open>num_codes\<close> entries, each of them 0 or 1, exactly one of them equal to 1, and the
  entries of the row sum to 1.
\<close>

theorem one_hot_rows_exactly_one_hot:
  assumes wf: "wf_quantizer vq"
    and call: "call vq codes = Inr (nearest, one_hot)"
    and b: "b < length codes" and l: "l < length (codes ! b)"
  shows "length one_hot = length codes \<and> length (one_hot ! b) = length (codes ! b) \<and>
         length (one_hot ! b ! l) = num_codes vq \<and>
         (\<exists>!i. i < num_codes vq \<and> one_hot ! b ! l ! i = 1) \<and>
         (\<forall>j<num_codes vq. one_hot ! b ! l ! j = 1 \<or> one_hot ! b ! l ! j = 0) \<and>
         sum_list (one_hot ! b ! l) = 1"
proof -
  let ?K = "num_codes vq" and ?i = "assignments vq codes ! b ! l"
  from call have K: "0 < ?K" and oh: "one_hot = one_hot_assignments vq codes"
    by (simp_all add: call_Inr)
  have i: "?i < ?K" using wf K b l by (rule assignment_in_range)
  have row: "one_hot ! b ! l = tf_one_hot ?i ?K"
    using oh b l by (simp add: one_hot_assignments_nth)
  have 1: "length one_hot = length codes" "length (one_hot ! b) = length (codes ! b)"
    using oh b by (simp_all add: one_hot_assignments_def assignments_def distances_def)
  have 2: "length (one_hot ! b ! l) = ?K" by (simp add: row length_tf_one_hot)
  have 3: "\<exists>!i. i < ?K \<and> one_hot ! b ! l ! i = 1"
  proof (rule ex1I[of _ ?i])
    show "?i < ?K \<and> one_hot ! b ! l ! ?i = 1" using i by (simp add: row nth_tf_one_hot)
  next
    fix j assume "j < ?K \<and> one_hot ! b ! l ! j = 1"
    then show "j = ?i" by (auto simp: row nth_tf_one_hot split: if_splits)
  qed
  have 4: "\<forall>j<?K. one_hot ! b ! l ! j = 1 \<or> one_hot ! b ! l ! j = 0"
    by (simp add: row nth_tf_one_hot)
  have 5: "sum_list (one_hot ! b ! l) = 1" using i by (simp add: row sum_list_tf_one_hot)
  from 1 2 3 4 5 show ?thesis by blast
qed

theorem one_hot_rows_exactly_one_hot_witness:
  "wf_quantizer (VectorQuantizer_init 3 1 [[0], [4], [8]]) \<and>
   call (VectorQuantizer_init 3 1 [[0], [4], [8]]) [[[5], [2]], [[9], [- 1]]]
     = Inr ([[[4], [0]], [[8], [0]]], [[[0, 1, 0], [1, 0, 0]], [[0, 0, 1], [1, 0, 0]]]) \<and>
   length ([[[0, 1, 0], [1, 0, 0]], [[0, 0, 1], [1, 0, 0]]] ! 1 ! 0 :: real list) = 3 \<and>
   ([[[0, 1, 0], [1, 0, 0]], [[0, 0, 1], [1, 0, 0]]] ! 1 ! 0 :: real list) ! 2 = 1 \<and>
   sum_list ([[[0, 1, 0], [1, 0, 0]], [[0, 0, 1], [1, 0, 0]]] ! 1 ! 0 :: real list) = 1"
proof -
  let ?vq = "VectorQuantizer_init 3 1 [[0], [4], [8]]"
  let ?codes = "[[[5], [2]], [[9], [- 1]]] :: tensor3"
  have wf: "wf_quantizer ?vq"
    by (simp add: wf_quantizer_def has_shape2_def VectorQuantizer_init_def)
  have c: "call ?vq ?codes
      = Inr ([[[4], [0]], [[8], [0]]], [[[0, 1, 0], [1, 0, 0]], [[0, 0, 1], [1, 0, 0]]])"
    by (simp add: call_def VectorQuantizer_init_def shape_ok_def trailing_dim_def
        nearest_codebook_entries_def one_hot_assignments_def assignments_def distances_def
        tf_norm_def tf_one_hot_def select_entry_def reduce_sum_axis0_def upt_rec)
  from one_hot_rows_exactly_one_hot[OF wf c, of 1 0] wf c show ?thesis by simp
qed

text \<open>
  Claim C5. Whenever the quantizer returns, the nearest entry of a latent position is the
  row of the codebook at the index where the one-hot row of the position is 1. With the
  codebook \<open>[[0,0],[10,10],[-10,10],[10,-10]]\<close> and the single code \<open>[0.1, 0.1]\<close> the
  quantizer returns the nearest entry \<open>[0, 0]\<close> and the one-hot row \<open>[1, 0, 0, 0]\<close>.
\<close>

theorem nearest_is_selected_codebook_row:
  "(wf_quantizer vq \<and> call vq codes = Inr (nearest, one_hot) \<and>
      b < length codes \<and> l < length (codes ! b) \<longrightarrow>
      length nearest = length codes \<and> length (nearest ! b) = length (codes ! b) \<and>
      (\<exists>i<num_codes vq. one_hot ! b ! l ! i = 1 \<and> nearest ! b ! l = codebook vq ! i) \<and>
      (\<forall>i<num_codes vq. one_hot ! b ! l ! i = 1 \<longrightarrow> nearest ! b ! l = codebook vq ! i)) \<and>
   call (VectorQuantizer_init 4 2 [[0, 0], [10, 10], [- 10, 10], [10, - 10]]) [[[1 / 10, 1 / 10]]]
     = Inr ([[[0, 0]]], [[[1, 0, 0, 0]]])"
proof (intro conjI impI)
  assume a: "wf_quantizer vq \<and> call vq codes = Inr (nearest, one_hot) \<and>
      b < length codes \<and> l < length (codes ! b)"
  let ?K = "num_codes vq" and ?i = "assignments vq codes ! b ! l"
  from a have wf: "wf_quantizer vq" and b: "b < length codes" and l: "l < length (codes ! b)"
    and K: "0 < ?K" and oh: "one_hot = one_hot_assignments vq codes"
    and nr: "nearest = nearest_codebook_entries vq codes"
    by (simp_all add: call_Inr)
  have i: "?i < ?K" using wf K b l by (rule assignment_in_range)
  have row: "one_hot ! b ! l = tf_one_hot ?i ?K"
    using oh b l by (simp add: one_hot_assignments_nth)
  have sel: "nearest ! b ! l = codebook vq ! ?i"
    using nr b l wf i row oh by (simp add: nearest_nth select_entry_one_hot)
  show "length nearest = length codes" "length (nearest ! b) = length (codes ! b)"
    using nr b
    by (simp_all add: nearest_codebook_entries_def one_hot_assignments_def assignments_def
        distances_def)
  show "\<exists>i<?K. one_hot ! b ! l ! i = 1 \<and> nearest ! b ! l = codebook vq ! i"
    using i sel by (auto simp: row nth_tf_one_hot)
  show "\<forall>i<?K. one_hot ! b ! l ! i = 1 \<longrightarrow> nearest ! b ! l = codebook vq ! i"
    using sel by (auto simp: row nth_tf_one_hot split: if_splits)
next
  show "call (VectorQuantizer_init 4 2 [[0, 0], [10, 10], [- 10, 10], [10, - 10]]) [[[1 / 10, 1 / 10]]]
     = Inr ([[[0, 0]]], [[[1, 0, 0, 0]]])"
    by (simp add: call_def VectorQuantizer_init_def shape_ok_def trailing_dim_def
        nearest_codebook_entries_def one_hot_assignments_def assignments_def distances_def
        tf_norm_def tf_one_hot_def select_entry_def reduce_sum_axis0_def upt_rec)
qed

theorem nearest_is_selected_codebook_row_witness:
  "wf_quantizer (VectorQuantizer_init 4 2 [[0, 0], [10, 10], [- 10, 10], [10, - 10]]) \<and>
   call (VectorQuantizer_init 4 2 [[0, 0], [10, 10], [- 10, 10], [10, - 10]])
        [[[1 / 10, 1 / 10], [8, - 7]]]
     = Inr ([[[0, 0], [10, - 10]]], [[[1, 0, 0, 0], [0, 0, 0, 1]]]) \<and>
   ([[[1, 0, 0, 0], [0, 0, 0, 1]]] :: tensor3) ! 0 ! 1 ! 3 = 1 \<and>
   ([[[0, 0], [10, - 10]]] :: tensor3) ! 0 ! 1
     = codebook (VectorQuantizer_init 4 2 [[0, 0], [10, 10], [- 10, 10], [10, - 10]]) ! 3"
proof -
  let ?vq = "VectorQuantizer_init 4 2 [[0, 0], [10, 10], [- 10, 10], [10, - 10]]"
  let ?codes = "[[[1 / 10, 1 / 10], [8, - 7]]] :: tensor3"
  have wf: "wf_quantizer ?vq"
    by (simp add: wf_quantizer_def has_shape2_def VectorQuantizer_init_def)
  have c: "call ?vq ?codes = Inr ([[[0, 0], [10, - 10]]], [[[1, 0, 0, 0], [0, 0, 0, 1]]])"
    by (simp add: call_def VectorQuantizer_init_def shape_ok_def trailing_dim_def
        nearest_codebook_entries_def one_hot_assignments_def assignments_def distances_def
        tf_norm_def tf_one_hot_def select_entry_def reduce_sum_axis0_def upt_rec)
  have s: "codebook ?vq ! 3 = [10, - 10]" by (simp add: VectorQuantizer_init_def)
  from nearest_is_selected_codebook_row[of ?vq ?codes "[[[0, 0], [10, - 10]]]"
      "[[[1, 0, 0, 0], [0, 0, 0, 1]]]" 0 1] wf c s
  show ?thesis by simp
qed

section \<open>Properties of the codebook update\<close>

lemma moving_average_eq: "moving_average decay v x = decay * v + (1 - decay) * x"
  by (simp add: moving_average_def algebra_simps)

lemma wf_ema:
  assumes "wf_quantizer vq"
  shows "length (ema_count vq) = num_codes vq"
    and "length (ema_means vq) = num_codes vq"
    and "k < num_codes vq \<Longrightarrow> length (ema_means vq ! k) = code_size vq"
  using assms by (auto simp: wf_quantizer_def has_shape2_def list_all_length)

lemma length_batch_counts: "length (batch_counts n one_hot) = n"
  by (simp add: batch_counts_def reduce_sum_axis0_def)

lemma nth_batch_counts:
  "k < n \<Longrightarrow> batch_counts n one_hot ! k = (\<Sum>p\<leftarrow>concat one_hot. p ! k)"
  by (simp add: batch_counts_def reduce_sum_axis0_def)

lemma length_batch_means: "length (batch_means n m codes one_hot) = n"
  by (simp add: batch_means_def)

lemma length_nth_batch_means: "k < n \<Longrightarrow> length (batch_means n m codes one_hot ! k) = m"
  by (simp add: batch_means_def reduce_sum_axis0_def)

lemma update_sizes [simp]:
  "num_codes (update_codebook vq codes one_hot decay) = num_codes vq"
  "code_size (update_codebook vq codes one_hot decay) = code_size vq"
  by (simp_all add: update_codebook_def Let_def)

lemma update_ema_count:
  "ema_count (update_codebook vq codes one_hot decay)
     = assign_moving_average1 (ema_count vq) (batch_counts (num_codes vq) one_hot) decay"
  by (simp add: update_codebook_def Let_def)

lemma update_ema_means:
  "ema_means (update_codebook vq codes one_hot decay)
     = assign_moving_average2 (ema_means vq)
         (batch_means (num_codes vq) (code_size vq) codes one_hot) decay"
  by (simp add: update_codebook_def Let_def)

lemma update_codebook_codebook:
  "codebook (update_codebook vq codes one_hot decay)
     = map2 (\<lambda>row c. map (\<lambda>x. x / c) row)
         (ema_means (update_codebook vq codes one_hot decay))
         (map (\<lambda>c. c + epsilon) (ema_count (update_codebook vq codes one_hot decay)))"
  by (simp add: update_codebook_def Let_def)

lemma update_ema_count_nth:
  assumes "wf_quantizer vq" "k < num_codes vq"
  shows "ema_count (update_codebook vq codes one_hot decay) ! k
           = decay * ema_count vq ! k + (1 - decay) * batch_counts (num_codes vq) one_hot ! k"
  using assms
  by (simp add: update_ema_count assign_moving_average1_def wf_ema length_batch_counts
      moving_average_eq)


lemma update_lengths:
  assumes "wf_quantizer vq"
  shows "length (ema_count (update_codebook vq codes one_hot decay)) = num_codes vq"
    and "length (ema_means (update_codebook vq codes one_hot decay)) = num_codes vq"
    and "k < num_codes vq \<Longrightarrow>
         length (ema_means (update_codebook vq codes one_hot decay) ! k) = code_size vq"
  using assms
  by (simp_all add: update_ema_count update_ema_means assign_moving_average1_def
      assign_moving_average2_def wf_ema length_batch_counts length_batch_means
      length_nth_batch_means)

lemma update_codebook_nth:
  assumes "wf_quantizer vq" "k < num_codes vq" "d < code_size vq"
  shows "codebook (update_codebook vq codes one_hot decay) ! k ! d
           = ema_means (update_codebook vq codes one_hot decay) ! k ! d
             / (ema_count (update_codebook vq codes one_hot decay) ! k + epsilon)"
  using assms update_lengths[OF assms(1)]
  by (simp add: update_codebook_codebook)

lemma wf_update_codebook:
  assumes "wf_quantizer vq"
  shows "wf_quantizer (update_codebook vq codes one_hot decay)"
  using update_lengths[OF assms]
  by (simp add: wf_quantizer_def has_shape2_def list_all_length update_codebook_codebook)


subsection \<open>The moving average in \<open>float32\<close>\<close>














lemma update_f32_sizes [simp]:
  "num_codes (update_codebook_f32 vq codes one_hot decay) = num_codes vq"
  "code_size (update_codebook_f32 vq codes one_hot decay) = code_size vq"
  by (simp_all add: update_codebook_f32_def Let_def)








subsection \<open>A code without assignments in \<open>float32\<close>\<close>







subsection \<open>One update of the codebook in \<open>float32\<close>\<close>











section \<open>Properties of \<open>make_vq_vae\<close> and of the training loop\<close>

lemma make_vq_vae_Inr:
  "make_vq_vae images encoder_fn decoder_fn log_prob vq beta decay = Inr (loss, dd, vq') \<longleftrightarrow>
     shape_ok vq (encoder_fn images) \<and> 0 < num_codes vq \<and>
     dd = decoder_fn (codes_straight_through (encoder_fn images)
            (nearest_codebook_entries vq (encoder_fn images))) \<and>
     loss = beta * commitment_loss (encoder_fn images) (nearest_codebook_entries vq (encoder_fn images))
            + - reduce_mean1 (log_prob dd images) \<and>
     vq' = update_codebook vq (encoder_fn images) (one_hot_assignments vq (encoder_fn images)) decay"
  by (auto simp: make_vq_vae_def call_def Let_def)

lemma training_loop_Cons:
  "training_loop log_prob beta decay vq ((images, encoder_fn, decoder_fn) # steps) = Inr vq2 \<longleftrightarrow>
     (\<exists>loss dd vq1. make_vq_vae images encoder_fn decoder_fn log_prob vq beta decay = Inr (loss, dd, vq1)
        \<and> training_loop log_prob beta decay vq1 steps = Inr vq2)"
  by (auto split: sum.splits)


lemma example_run:
  "make_vq_vae [[[2]]] id id example_log_prob (VectorQuantizer_init 2 1 [[0], [10]]) (1 / 4) (1 / 2)
     = Inr (5, [[[0]]],
            \<lparr> num_codes = 2, code_size = 1,
              codebook = [[1 / (1 / 2 + 1 / 100000)], [5 / (0 + 1 / 100000)]],
              ema_count = [1 / 2, 0], ema_means = [[1], [5]] \<rparr>)"
  "training_loop example_log_prob (1 / 4) (1 / 2) (VectorQuantizer_init 2 1 [[0], [10]])
      [([[[2]]], id, id), ([[[4]]], id, id)]
     = Inr \<lparr> num_codes = 2, code_size = 1,
             codebook = [[(5 / 2) / (3 / 4 + 1 / 100000)], [(5 / 2) / (0 + 1 / 100000)]],
             ema_count = [3 / 4, 0], ema_means = [[5 / 2], [5 / 2]] \<rparr>"
proof -
  let ?vq = "VectorQuantizer_init 2 1 [[0], [10]]"
  let ?vq1 = "\<lparr> num_codes = 2, code_size = 1,
              codebook = [[1 / (1 / 2 + 1 / 100000)], [5 / (0 + 1 / 100000)]],
              ema_count = [1 / 2, 0], ema_means = [[1], [5]] \<rparr>"
  let ?vq2 = "\<lparr> num_codes = 2, code_size = 1,
             codebook = [[(5 / 2) / (3 / 4 + 1 / 100000)], [(5 / 2) / (0 + 1 / 100000)]],
             ema_count = [3 / 4, 0], ema_means = [[5 / 2], [5 / 2]] \<rparr>"
  show s1: "make_vq_vae [[[2]]] id id example_log_prob ?vq (1 / 4) (1 / 2) = Inr (5, [[[0]]], ?vq1)"
    by (simp add: make_vq_vae_def call_def shape_ok_def trailing_dim_def VectorQuantizer_init_def
        nearest_codebook_entries_def one_hot_assignments_def assignments_def distances_def
        tf_norm_def tf_one_hot_def select_entry_def reduce_sum_axis0_def upt_rec
        update_codebook_def batch_counts_def batch_means_def outer_product_def
        assign_moving_average1_def assign_moving_average2_def moving_average_def epsilon_def
        codes_straight_through_def commitment_loss_def stop_gradient_def tensor_add_def
        tensor_sub_def tf_square_def reduce_mean3_def reduce_mean1_def example_log_prob_def
        Let_def eval_nat_numeral)
  have u: "update_codebook ?vq1 [[[4]]] [[[1, 0]]] (1 / 2) = ?vq2"
    by (simp add: update_codebook_def batch_counts_def batch_means_def outer_product_def
        reduce_sum_axis0_def upt_rec assign_moving_average1_def assign_moving_average2_def
        moving_average_def epsilon_def Let_def)
  have n: "tf_norm [x] = \<bar>x\<bar>" for x
    by (simp add: tf_norm_def)
  have o: "one_hot_assignments ?vq1 [[[4]]] = [[[1, 0]]]"
    by (simp add: one_hot_assignments_def assignments_def distances_def n
        tf_one_hot_def upt_rec)
  have s2: "\<exists>loss dd. make_vq_vae [[[4]]] id id example_log_prob ?vq1 (1 / 4) (1 / 2)
      = Inr (loss, dd, ?vq2)"
  proof -
    have sh: "shape_ok ?vq1 [[[4]]]" by (simp add: shape_ok_def trailing_dim_def)
    have kk: "0 < num_codes ?vq1" by simp
    show ?thesis unfolding make_vq_vae_Inr id_apply o u using sh kk by blast
  qed
  show "training_loop example_log_prob (1 / 4) (1 / 2) ?vq
      [([[[2]]], id, id), ([[[4]]], id, id)] = Inr ?vq2"
    unfolding training_loop_Cons using s1 s2 by auto
qed


subsection \<open>The count of every code stays nonnegative\<close>

lemma one_hot_rows:
  assumes "p \<in> set (concat (one_hot_assignments vq codes))"
  shows "\<exists>i. p = tf_one_hot i (num_codes vq)"
  using assms by (auto simp: one_hot_assignments_def)

lemma batch_counts_nonneg:
  assumes "k < num_codes vq"
  shows "0 \<le> batch_counts (num_codes vq) (one_hot_assignments vq codes) ! k"
proof -
  have "0 \<le> p ! k" if "p \<in> set (concat (one_hot_assignments vq codes))" for p
    using one_hot_rows[OF that] assms by (auto simp: nth_tf_one_hot)
  then have "0 \<le> (\<Sum>p\<leftarrow>concat (one_hot_assignments vq codes). p ! k)"
    by (intro sum_list_nonneg) auto
  then show ?thesis using assms by (simp add: nth_batch_counts)
qed

lemma step_keeps_ema_count_nonneg:
  assumes inv: "ema_count_nonneg vq" and decay: "0 \<le> decay" "decay \<le> 1"
    and step: "make_vq_vae images encoder_fn decoder_fn log_prob vq beta decay = Inr (loss, dd, vq')"
  shows "ema_count_nonneg vq' \<and> num_codes vq' = num_codes vq \<and> code_size vq' = code_size vq"
proof -
  let ?oh = "one_hot_assignments vq (encoder_fn images)"
  from inv have wf: "wf_quantizer vq"
    and nn: "\<And>k. k < num_codes vq \<Longrightarrow> 0 \<le> ema_count vq ! k"
    by (auto simp: ema_count_nonneg_def list_all_length wf_ema(1))
  from step have vq': "vq' = update_codebook vq (encoder_fn images) ?oh decay"
    by (simp add: make_vq_vae_Inr)
  have wf': "wf_quantizer vq'" unfolding vq' using wf by (rule wf_update_codebook)
  have "0 \<le> ema_count vq' ! k" if k: "k < num_codes vq" for k
  proof -
    have "ema_count vq' ! k
        = decay * ema_count vq ! k + (1 - decay) * batch_counts (num_codes vq) ?oh ! k"
      unfolding vq' using wf k by (rule update_ema_count_nth)
    moreover have "0 \<le> decay * ema_count vq ! k" using decay(1) nn[OF k] by simp
    moreover have "0 \<le> (1 - decay) * batch_counts (num_codes vq) ?oh ! k"
      using decay(2) batch_counts_nonneg[OF k] by simp
    ultimately show ?thesis by simp
  qed
  moreover have "length (ema_count vq') = num_codes vq"
    unfolding vq' using wf by (rule update_lengths(1))
  ultimately have "list_all (\<lambda>c. 0 \<le> c) (ema_count vq')" by (simp add: list_all_length)
  with wf' show ?thesis by (simp add: ema_count_nonneg_def vq')
qed

lemma training_loop_keeps_ema_count_nonneg:
  assumes "ema_count_nonneg vq" "0 \<le> decay" "decay \<le> 1"
    and "training_loop log_prob beta decay vq steps = Inr vq'"
  shows "ema_count_nonneg vq' \<and> num_codes vq' = num_codes vq \<and> code_size vq' = code_size vq"
  using assms
proof (induction steps arbitrary: vq)
  case Nil
  then show ?case by simp
next
  case (Cons s steps)
  obtain images encoder_fn decoder_fn where s: "s = (images, encoder_fn, decoder_fn)"
    by (cases s) auto
  from Cons.prems(4) obtain loss dd vq1 where
    s1: "make_vq_vae images encoder_fn decoder_fn log_prob vq beta decay = Inr (loss, dd, vq1)" and
    r: "training_loop log_prob beta decay vq1 steps = Inr vq'"
    unfolding s training_loop_Cons by blast
  from step_keeps_ema_count_nonneg[OF Cons.prems(1-3) s1]
  have i1: "ema_count_nonneg vq1" and sz: "num_codes vq1 = num_codes vq" "code_size vq1 = code_size vq"
    by blast+
  from Cons.IH[OF i1 Cons.prems(2,3) r] sz show ?case by simp
qed

lemma training_loop_last_codebook:
  assumes "wf_quantizer vq" "steps \<noteq> []"
    and "training_loop log_prob beta decay vq steps = Inr vq'"
    and "k < num_codes vq" "d < code_size vq"
  shows "codebook vq' ! k ! d = ema_means vq' ! k ! d / (ema_count vq' ! k + epsilon)"
  using assms
proof (induction steps arbitrary: vq)
  case Nil
  then show ?case by simp
next
  case (Cons s steps)
  obtain images encoder_fn decoder_fn where s: "s = (images, encoder_fn, decoder_fn)"
    by (cases s) auto
  from Cons.prems(3) obtain loss dd vq1 where
    s1: "make_vq_vae images encoder_fn decoder_fn log_prob vq beta decay = Inr (loss, dd, vq1)" and
    r: "training_loop log_prob beta decay vq1 steps = Inr vq'"
    unfolding s training_loop_Cons by blast
  let ?oh = "one_hot_assignments vq (encoder_fn images)"
  from s1 have vq1: "vq1 = update_codebook vq (encoder_fn images) ?oh decay"
    by (simp add: make_vq_vae_Inr)
  have wf1: "wf_quantizer vq1" unfolding vq1 using Cons.prems(1) by (rule wf_update_codebook)
  have k1: "k < num_codes vq1" and d1: "d < code_size vq1"
    using Cons.prems(4,5) by (simp_all add: vq1)
  show ?case
  proof (cases "steps = []")
    case True
    with r have "vq' = vq1" by simp
    then show ?thesis
      unfolding vq1 using update_codebook_nth[OF Cons.prems(1,4,5)] by simp
  next
    case False
    from Cons.IH[OF wf1 False r k1 d1] show ?thesis .
  qed
qed

lemma init_ema_count_nonneg:
  assumes "has_shape2 n_codes c_size initial_value"
  shows "ema_count_nonneg (VectorQuantizer_init n_codes c_size initial_value)"
  using assms
  by (simp add: ema_count_nonneg_def wf_quantizer_def VectorQuantizer_init_def list_all_length)

lemma training_loop_returns:
  assumes "0 < num_codes vq"
    and "\<forall>s\<in>set steps. trailing_dim (code_size vq) ((fst (snd s)) (fst s))"
  shows "\<exists>vq'. training_loop log_prob beta decay vq steps = Inr vq'"
  using assms
proof (induction steps arbitrary: vq)
  case Nil
  then show ?case by simp
next
  case (Cons s steps)
  obtain images encoder_fn decoder_fn where s: "s = (images, encoder_fn, decoder_fn)"
    by (cases s) auto
  let ?vq1 = "update_codebook vq (encoder_fn images) (one_hot_assignments vq (encoder_fn images)) decay"
  have ok: "shape_ok vq (encoder_fn images)"
    using Cons.prems(2) by (simp add: s shape_ok_def)
  then obtain loss dd where
    s1: "make_vq_vae images encoder_fn decoder_fn log_prob vq beta decay = Inr (loss, dd, ?vq1)"
    using Cons.prems(1) by (simp add: make_vq_vae_Inr)
  have "\<exists>vq'. training_loop log_prob beta decay ?vq1 steps = Inr vq'"
    using Cons.prems by (intro Cons.IH) simp_all
  then show ?case unfolding s training_loop_Cons using s1 by blast
qed

text \<open>
  Claim C9. The training loop starts from the initial quantizer, whose \<open>ema_count\<close> is 0.
  After any number of steps with a decay between 0 and 1, every entry of the stored
  \<open>ema_count\<close> is nonnegative, so the divisor \<open>ema_count[k] + 1e-5\<close> is at least \<open>1e-5\<close>
  and positive; after the last step the codebook entry is the quotient of \<open>ema_means\<close> by
  this divisor.
\<close>

theorem ema_count_never_negative:
  assumes shape: "has_shape2 n_codes c_size initial_value"
    and decay: "0 < decay" "decay < 1"
    and run: "training_loop log_prob beta decay
                (VectorQuantizer_init n_codes c_size initial_value) steps = Inr vq"
    and k: "k < n_codes"
  shows "num_codes vq = n_codes \<and> length (ema_count vq) = n_codes \<and>
         0 \<le> ema_count vq ! k \<and>
         1 / 100000 \<le> ema_count vq ! k + 1 / 100000 \<and>
         0 < ema_count vq ! k + 1 / 100000 \<and>
         (steps \<noteq> [] \<longrightarrow>
            (\<forall>d<c_size. codebook vq ! k ! d = ema_means vq ! k ! d / (ema_count vq ! k + 1 / 100000)))"
proof -
  let ?vq0 = "VectorQuantizer_init n_codes c_size initial_value"
  have i0: "ema_count_nonneg ?vq0" using shape by (rule init_ema_count_nonneg)
  have sz0: "num_codes ?vq0 = n_codes" "code_size ?vq0 = c_size"
    by (simp_all add: VectorQuantizer_init_def)
  from training_loop_keeps_ema_count_nonneg[OF i0 _ _ run] decay
  have inv: "ema_count_nonneg vq" and sz: "num_codes vq = n_codes" "code_size vq = c_size"
    by (simp_all add: sz0)
  from inv have wf: "wf_quantizer vq" and nn: "list_all (\<lambda>c. 0 \<le> c) (ema_count vq)"
    by (simp_all add: ema_count_nonneg_def)
  have len: "length (ema_count vq) = n_codes" using wf sz by (simp add: wf_ema(1))
  have c: "0 \<le> ema_count vq ! k" using nn k len by (simp add: list_all_length)
  have q: "codebook vq ! k ! d = ema_means vq ! k ! d / (ema_count vq ! k + 1 / 100000)"
    if "steps \<noteq> []" "d < c_size" for d
    using training_loop_last_codebook[OF _ that(1) run, of k d] i0 k that(2)
    by (simp add: ema_count_nonneg_def sz0 epsilon_def)
  from sz(1) len c q show ?thesis by simp
qed


theorem ema_count_never_negative_witness:
  "has_shape2 2 1 [[0], [10]] \<and> (0::real) < 1 / 2 \<and> (1 / 2 :: real) < 1 \<and>
   training_loop example_log_prob (1 / 4) (1 / 2) (VectorQuantizer_init 2 1 [[0], [10]])
      [([[[2]]], id, id), ([[[4]]], id, id)]
     = Inr \<lparr> num_codes = 2, code_size = 1,
             codebook = [[(5 / 2) / (3 / 4 + 1 / 100000)], [(5 / 2) / (0 + 1 / 100000)]],
             ema_count = [3 / 4, 0], ema_means = [[5 / 2], [5 / 2]] \<rparr> \<and>
   (0::real) \<le> [3 / 4, 0] ! 1 \<and> (0::real) < [3 / 4, 0] ! 1 + 1 / 100000"
proof -
  have sh: "has_shape2 2 1 [[0], [10]]" by (simp add: has_shape2_def)
  have d: "(0::real) < 1 / 2" "(1 / 2 :: real) < 1" by simp_all
  have k: "(1::nat) < 2" by simp
  from ema_count_never_negative[OF sh d example_run(2) k] sh d example_run(2)
  show ?thesis by simp
qed

section \<open>Properties of the loss\<close>

subsection \<open>The value of the straight-through codes in \<open>float32\<close>\<close>









subsection \<open>The decay is used as it comes\<close>






subsection \<open>No derivative of the loss reaches the codebook\<close>

lemma list_all_map2:
  assumes "\<And>a b. P a \<Longrightarrow> Q b \<Longrightarrow> R (f a b)" "list_all P xs" "list_all Q ys"
  shows "list_all R (map2 f xs ys)"
proof -
  have "R (f a b)" if "(a, b) \<in> set (zip xs ys)" for a b
  proof -
    from that have "a \<in> set xs" "b \<in> set ys"
      by (auto dest: set_zip_leftD set_zip_rightD)
    with assms(2,3) have "P a" "Q b" by (auto simp: list_all_iff)
    then show ?thesis by (rule assms(1))
  qed
  then show ?thesis by (auto simp: list_all_iff)
qed

lemma list_all3_map2:
  assumes "\<And>a b. P a \<Longrightarrow> Q b \<Longrightarrow> R (f a b)"
    and "list_all (list_all (list_all P)) s" "list_all (list_all (list_all Q)) t"
  shows "list_all (list_all (list_all R)) (map2 (map2 (map2 f)) s t)"
proof -
  have 1: "list_all R (map2 f u v)" if "list_all P u" "list_all Q v" for u v
    using assms(1) that by (rule list_all_map2)
  have 2: "list_all (list_all R) (map2 (map2 f) u v)"
    if "list_all (list_all P) u" "list_all (list_all Q) v" for u v
    using 1 that by (rule list_all_map2)
  show ?thesis using 2 assms(2,3) by (rule list_all_map2)
qed

lemma list_all3_True: "list_all (list_all (list_all (\<lambda>x. True))) t"
  by (simp add: list_all_iff)

lemma zeros_like_zero: "list_all (list_all (list_all (\<lambda>x. x = 0))) (zeros_like t)"
  by (simp add: zeros_like_def list_all_iff)

lemma sum_list_zero: "list_all (\<lambda>x. x = (0::real)) xs \<Longrightarrow> sum_list xs = 0"
  by (induction xs) simp_all

lemma concat_concat_zero:
  "list_all (list_all (list_all (\<lambda>x. x = (0::real)))) t \<Longrightarrow> list_all (\<lambda>x. x = 0) (concat (concat t))"
  by (auto simp: list_all_iff)

lemma reduce_mean3_zero:
  "list_all (list_all (list_all (\<lambda>x. x = 0))) t \<Longrightarrow> reduce_mean3 t = 0"
  by (simp add: reduce_mean3_def reduce_mean1_def sum_list_zero concat_concat_zero)

lemma contract_zero:
  assumes "list_all (list_all (list_all (\<lambda>x. x = 0))) dt"
  shows "contract j dt = 0"
proof -
  have "list_all (list_all (list_all (\<lambda>x. x = 0))) (map2 (map2 (map2 (*))) j dt)"
    by (rule list_all3_map2[where P = "\<lambda>x. True" and Q = "\<lambda>x. x = 0"])
      (simp_all add: list_all3_True assms)
  then show ?thesis by (simp add: contract_def sum_list_zero concat_concat_zero)
qed

lemma d_loss_value:
  "fst (d_loss codes (nearest, tangent) f jac beta)
     = beta * commitment_loss codes nearest
       + - reduce_mean1 (f (codes_straight_through codes nearest))"
  by (simp add: d_loss_def Let_def d_add_def d_sub_def d_stop_gradient_def d_apply_def
      d_reduce_mean1_def d_reduce_mean3_def d_square_def commitment_loss_def
      codes_straight_through_def)

lemma d_loss_tangent: "snd (d_loss codes (nearest, tangent) f jac beta) = 0"
proof -
  let ?Z = "list_all (list_all (list_all (\<lambda>x. x = (0::real))))"
  have st: "?Z (tensor_add (zeros_like codes) (zeros_like (tensor_sub nearest codes)))"
    unfolding tensor_add_def
    by (rule list_all3_map2[where P = "\<lambda>x. x = 0" and Q = "\<lambda>x. x = 0"])
      (simp_all add: zeros_like_zero)
  have "list_all (\<lambda>x. x = 0)
          (map (\<lambda>j. contract j (tensor_add (zeros_like codes) (zeros_like (tensor_sub nearest codes))))
             (jac (codes_straight_through codes nearest)))"
    by (simp add: list_all_iff contract_zero[OF st])
  then have rec: "reduce_mean1
          (map (\<lambda>j. contract j (tensor_add (zeros_like codes) (zeros_like (tensor_sub nearest codes))))
             (jac (codes_straight_through codes nearest))) = 0"
    by (simp add: reduce_mean1_def sum_list_zero)
  have "?Z (tensor_sub (zeros_like codes) (zeros_like nearest))"
    unfolding tensor_sub_def
    by (rule list_all3_map2[where P = "\<lambda>x. x = 0" and Q = "\<lambda>x. x = 0"])
      (simp_all add: zeros_like_zero)
  then have "?Z (map2 (map2 (map2 (\<lambda>x dx. 2 * x * dx)))
       (tensor_sub codes (stop_gradient nearest))
       (tensor_sub (zeros_like codes) (zeros_like nearest)))"
    by (intro list_all3_map2[where P = "\<lambda>x. True" and Q = "\<lambda>x. x = 0"])
      (simp_all add: list_all3_True)
  then have com: "reduce_mean3 (map2 (map2 (map2 (\<lambda>x dx. 2 * x * dx)))
       (tensor_sub codes (stop_gradient nearest))
       (tensor_sub (zeros_like codes) (zeros_like nearest))) = 0"
    by (rule reduce_mean3_zero)
  show ?thesis
    using rec com
    by (simp add: d_loss_def Let_def d_add_def d_sub_def d_stop_gradient_def d_apply_def
        d_reduce_mean1_def d_reduce_mean3_def d_square_def codes_straight_through_def
        stop_gradient_def)
qed

text \<open>
  Without \<open>tf.stop_gradient\<close> the nearest entries do carry a derivative: along a direction
  of the shape of the codebook, the tangent of the nearest entry of a position is the row
  of the direction at the assigned index.
\<close>

lemma nearest_tangent_is_direction_row:
  assumes wf: "wf_quantizer vq" and dir: "has_shape2 (num_codes vq) (code_size vq) direction"
    and K: "0 < num_codes vq" and b: "b < length codes" and l: "l < length (codes ! b)"
  shows "snd (d_nearest_codebook_entries vq direction codes) ! b ! l
           = direction ! (assignments vq codes ! b ! l)"
proof -
  let ?i = "assignments vq codes ! b ! l" and ?vq = "vq \<lparr> codebook := direction \<rparr>"
  have i: "?i < num_codes vq" using wf K b l by (rule assignment_in_range)
  have wf': "wf_quantizer ?vq" using wf dir by (simp add: wf_quantizer_def)
  have "snd (d_nearest_codebook_entries vq direction codes) ! b ! l
      = select_entry ?vq (tf_one_hot ?i (num_codes ?vq))"
    using b l
    by (simp add: d_nearest_codebook_entries_def one_hot_assignments_def assignments_def
        distances_def)
  also have "\<dots> = codebook ?vq ! ?i" using wf' i by (intro select_entry_one_hot) simp_all
  finally show ?thesis by simp
qed

text \<open>
  Claim C2. Whenever \<open>make_vq_vae\<close> returns a loss, the derivative of this loss along any
  direction in which the codebook moves is zero, and so is every entry of its gradient
  with respect to the codebook: both the straight-through path and the commitment loss
  pass the nearest entries through \<open>tf.stop_gradient\<close>, and the one-hot assignments have
  no gradient.
\<close>

theorem loss_gradient_of_codebook_is_zero:
  assumes "make_vq_vae images encoder_fn decoder_fn log_prob vq beta decay = Inr (loss, dd, vq')"
  shows "loss_derivative images encoder_fn decoder_fn log_prob jac vq beta direction = Inr (loss, 0) \<and>
         codebook_gradient images encoder_fn decoder_fn log_prob jac vq beta
           = Inr (replicate (num_codes vq) (replicate (code_size vq) 0))"
proof -
  let ?codes = "encoder_fn images"
  from assms have c: "call vq ?codes
      = Inr (nearest_codebook_entries vq ?codes, one_hot_assignments vq ?codes)"
    and loss: "loss = beta * commitment_loss ?codes (nearest_codebook_entries vq ?codes)
        + - reduce_mean1 (log_prob (decoder_fn (codes_straight_through ?codes
              (nearest_codebook_entries vq ?codes))) images)"
    by (simp_all add: make_vq_vae_Inr call_Inr)
  have pair: "p = (fst p, snd p)" for p :: "real \<times> real" by simp
  have "d_loss ?codes (d_nearest_codebook_entries vq direction ?codes)
          (\<lambda>c. log_prob (decoder_fn c) images) jac beta = (loss, 0)"
    by (subst pair)
      (simp only: d_nearest_codebook_entries_def d_loss_value d_loss_tangent loss)
  then have 1: "loss_derivative images encoder_fn decoder_fn log_prob jac vq beta direction
      = Inr (loss, 0)"
    by (simp add: loss_derivative_def c)
  have 2: "codebook_gradient images encoder_fn decoder_fn log_prob jac vq beta
      = Inr (replicate (num_codes vq) (replicate (code_size vq) 0))"
    by (simp add: codebook_gradient_def c d_nearest_codebook_entries_def d_loss_tangent
        map_replicate_const)
  from 1 2 show ?thesis ..
qed


theorem loss_gradient_of_codebook_is_zero_witness:
  "make_vq_vae [[[2]]] id id example_log_prob (VectorQuantizer_init 2 1 [[0], [10]]) (1 / 4) (1 / 2)
     = Inr (5, [[[0]]],
            \<lparr> num_codes = 2, code_size = 1,
              codebook = [[1 / (1 / 2 + 1 / 100000)], [5 / (0 + 1 / 100000)]],
              ema_count = [1 / 2, 0], ema_means = [[1], [5]] \<rparr>) \<and>
   loss_derivative [[[2]]] id id example_log_prob (example_jacobian [[[2]]])
       (VectorQuantizer_init 2 1 [[0], [10]]) (1 / 4) [[1], [1]] = Inr (5, 0) \<and>
   codebook_gradient [[[2]]] id id example_log_prob (example_jacobian [[[2]]])
       (VectorQuantizer_init 2 1 [[0], [10]]) (1 / 4) = Inr [[0], [0]]"
proof -
  have r: "replicate (num_codes (VectorQuantizer_init 2 1 [[0], [10]]))
             (replicate (code_size (VectorQuantizer_init 2 1 [[0], [10]])) (0::real)) = [[0], [0]]"
    by (simp add: VectorQuantizer_init_def eval_nat_numeral)
  from loss_gradient_of_codebook_is_zero[OF example_run(1),
      of "example_jacobian [[[2]]]" "[[1], [1]]"]
  show ?thesis unfolding r using example_run(1) by blast
qed

end
